theory Spec2Isabelle
  imports Complex_Main
begin

section \<open>Numbers and shared data\<close>

text \<open>
  A TypeScript \<^verbatim>\<open>number\<close> is modelled as an exact rational: the values are finite and the
  arithmetic is exact. The comparisons against the constants \<^verbatim>\<open>4.0\<close>, \<^verbatim>\<open>50\<close>, \<^verbatim>\<open>100\<close>
  are the same on doubles and on rationals. Where a number is printed into a text
  (template literals), the conversion to a string is the parameter \<open>numStr\<close>.
\<close>

type_synonym number = rat

text \<open>\<^verbatim>\<open>Math.round\<close>: the nearest integer, halves rounded up.\<close>

definition Math_round :: "number \<Rightarrow> number" where
  "Math_round x = of_int \<lfloor>x + 1 / 2\<rfloor>"

definition Math_ceil :: "number \<Rightarrow> number" where
  "Math_ceil x = of_int \<lceil>x\<rceil>"

datatype Score = A | B | C

text \<open>
  \<^verbatim>\<open>Lead\<close> and \<^verbatim>\<open>Competitor\<close> of shared/schema.ts. The records share field names, so
  a field is written with its record: \<open>Lead.rating\<close>, \<open>Competitor.rating\<close>.
\<close>

record Lead =
  id :: string
  name :: string
  address :: string
  placeId :: "string option"
  rating :: number
  reviewCount :: number
  score :: Score
  gapAnalysis :: string
  lat :: "number option"
  lng :: "number option"

record Competitor =
  id :: string
  leadId :: string
  name :: string
  rating :: number
  reviewCount :: number
  distance :: number
  placeId :: string

datatype Urgency = High | Medium | Low

text \<open>A value returned by \<^verbatim>\<open>JSON.parse\<close>; an object lists each key once.\<close>

datatype json =
  JNull | JBool bool | JNum number | JStr string | JArr "json list" | JObj "(string \<times> json) list"

text \<open>\<^verbatim>\<open>MarketingInsights\<close>; the three optional fields are set by the AI path only.\<close>

record MarketingInsights =
  score :: Score
  gapAnalysis :: string
  marketingOpportunity :: string
  actionableRecommendations :: "string list"
  competitivePosition :: string
  urgencyLevel :: Urgency
  intelligentInsights :: "string option"
  industrySpecificAdvice :: "string option"
  aiRecommendations :: "json list option"

section \<open>ScoringService\<close>

record MarketStats =
  averageRating :: number
  averageReviews :: number
  totalCompetitors :: nat
  highPerformers :: nat
  reviewRangeMin :: number
  reviewRangeMax :: number

text \<open>\<^verbatim>\<open>xs.reduce((sum, r) => sum + r, 0)\<close>\<close>

definition sumOf :: "number list \<Rightarrow> number" where
  "sumOf xs = foldl (\<lambda>sum r. sum + r) 0 xs"

text \<open>\<^verbatim>\<open>Math.min(...xs)\<close> and \<^verbatim>\<open>Math.max(...xs)\<close> on a non-empty array.\<close>

definition Math_min :: "number list \<Rightarrow> number" where
  "Math_min xs = foldl min (hd xs) (tl xs)"

definition Math_max :: "number list \<Rightarrow> number" where
  "Math_max xs = foldl max (hd xs) (tl xs)"

definition calculateMarketStats :: "Competitor list \<Rightarrow> MarketStats" where
  "calculateMarketStats competitors =
     (if length competitors = 0 then
        \<lparr>averageRating = 0, averageReviews = 0, totalCompetitors = 0, highPerformers = 0,
         reviewRangeMin = 0, reviewRangeMax = 0\<rparr>
      else
        let ratings = map Competitor.rating competitors;
            reviewCounts = map Competitor.reviewCount competitors;
            avgRating = sumOf ratings / of_nat (length ratings);
            avgReviews = sumOf reviewCounts / of_nat (length reviewCounts)
        in \<lparr>averageRating = Math_round (avgRating * 10) / 10,
            averageReviews = Math_round avgReviews,
            totalCompetitors = length competitors,
            highPerformers =
              length (filter (\<lambda>c. Competitor.rating c \<ge> 9 / 2 \<and> Competitor.reviewCount c \<ge> 100) competitors),
            reviewRangeMin = Math_min reviewCounts,
            reviewRangeMax = Math_max reviewCounts\<rparr>)"

definition generateMarketOpportunity ::
  "(number \<Rightarrow> string) \<Rightarrow> number \<Rightarrow> number \<Rightarrow> MarketStats \<Rightarrow> string" where
  "generateMarketOpportunity numStr rtg reviews marketStats =
     (if totalCompetitors marketStats = 0 then
        ''Market analysis shows this business has a '' @ numStr rtg @ ''/5.0 rating with '' @
        numStr reviews @
        '' reviews. To establish strong market presence and attract more customers, implementing a systematic review acquisition strategy would significantly improve visibility and credibility in search results.''
      else
        let competitiveGap = reviews - averageReviews marketStats;
            ratingPosition = (if rtg \<ge> averageRating marketStats then ''above'' else ''below'');
            opportunity =
              ''Local market analysis reveals '' @ numStr (of_nat (totalCompetitors marketStats)) @
              '' active competitors with an average rating of '' @
              numStr (averageRating marketStats) @ ''/5.0 and '' @
              numStr (averageReviews marketStats) @ '' reviews. ''
        in if competitiveGap < - 50 then
             opportunity @ ''Your business currently has '' @ numStr \<bar>competitiveGap\<bar> @
             '' fewer reviews than the market average, representing a significant opportunity to gain competitive advantage. '' @
             ''By increasing review velocity to reach market parity, you can expect improved search rankings and increased customer trust. '' @
             ''The review gap indicates strong potential for rapid market share growth through strategic reputation management.''
           else if competitiveGap < 0 then
             opportunity @ ''With '' @ numStr \<bar>competitiveGap\<bar> @
             '' fewer reviews than competitors, there'' @ [CHR 0x27] @
             ''s clear opportunity to strengthen market position. '' @
             ''Closing this review gap would improve local search visibility and customer confidence, directly impacting lead generation.''
           else
             opportunity @ ''Your review count '' @ ratingPosition @
             '' market average indicates '' @
             (if competitiveGap > 0 then ''strong'' else ''stable'') @
             '' market positioning. '' @
             ''Focus on maintaining review momentum while competitors work to catch up to your established market presence.'')"

text \<open>
  \<^verbatim>\<open>scoreLead\<close>: the four rules are tried in the order of the source; the first one that
  applies sets score, urgency, position text and recommendations.
\<close>

definition scoreLead ::
  "(number \<Rightarrow> string) \<Rightarrow> number \<Rightarrow> number \<Rightarrow> Competitor list \<Rightarrow> MarketingInsights" where
  "scoreLead numStr rtg reviews competitors =
     (let marketStats = calculateMarketStats competitors;
          opportunity = generateMarketOpportunity numStr rtg reviews marketStats;
          (sc, urgency, position, recommendations) =
            (if rtg < 4 then
               (C, High,
                ''Service quality issues with '' @ numStr rtg @ ''/5.0 rating'',
                [''Focus on improving service quality before review acquisition'',
                 ''Address customer satisfaction issues'',
                 ''Not ready for aggressive review campaigns''])
             else if reviews \<ge> 100 then
               (C, Low,
                ''Well-established with '' @ numStr reviews @
                '' reviews - limited growth opportunity'',
                [''Focus on review quality maintenance'',
                 ''Consider other marketing services'',
                 ''Limited need for review acquisition''])
             else if rtg \<ge> 4 \<and> reviews < 50 then
               (A, High,
                ''Perfect target: '' @ numStr rtg @ ''/5.0 rating with only '' @
                numStr reviews @ '' reviews'',
                [''Implement aggressive review acquisition campaign'',
                 ''Target 50-100 reviews within 6 months'',
                 ''Leverage existing customer satisfaction for rapid growth''])
             else
               (B, Medium,
                ''Solid target: '' @ numStr rtg @ ''/5.0 rating with '' @ numStr reviews @
                '' reviews'',
                [''Boost review count to reach 100+ threshold'',
                 ''Maintain rating quality during growth'',
                 ''Focus on review velocity improvement'']));
          gap0 = ''Lead Quality Assessment: '' @ numStr rtg @ ''/5.0 rating, '' @
                 numStr reviews @ '' reviews. '';
          gap =
            (if length competitors > 0 then
               let avgCompetitorReviews =
                     foldl (\<lambda>sum comp. sum + Competitor.reviewCount comp) 0 competitors /
                     of_nat (length competitors);
                   reviewGap = reviews - avgCompetitorReviews
               in gap0 @ ''Competitor average: '' @ numStr (Math_round avgCompetitorReviews) @
                  '' reviews ('' @ (if reviewGap > 0 then ''+'' else '''') @
                  numStr (Math_round reviewGap) @ '' gap).''
             else gap0 @ ''No competitor data for comparison.'')
      in \<lparr>score = sc, gapAnalysis = gap, marketingOpportunity = opportunity,
          actionableRecommendations = recommendations, competitivePosition = position,
          urgencyLevel = urgency, intelligentInsights = None, industrySpecificAdvice = None,
          aiRecommendations = None\<rparr>)"

subsection \<open>The AI-augmented path\<close>

text \<open>
  \<^verbatim>\<open>generateAIInsights\<close> awaits the text-generation call and parses the content of the
  reply. Both are external: the outcome of the call is an \<open>AiCall\<close> and \<^verbatim>\<open>JSON.parse\<close>
  is the parameter \<open>parse\<close> (\<open>None\<close> when it throws a SyntaxError). Anything thrown inside
  the \<^verbatim>\<open>try\<close> block (the request fails, the reply has no choice, the content is not
  JSON) ends in the \<^verbatim>\<open>catch\<close> block, which returns the fixed insights.
\<close>

datatype AiCall =
  CallThrows
| Replied "string option"

definition fallbackInsights :: json where
  "fallbackInsights =
     JObj [(''intelligentInsights'', JStr ''Standard competitive analysis available''),
           (''industrySpecificAdvice'', JStr ''Focus on customer service excellence''),
           (''personalizedRecommendations'',
              JArr [JStr ''Increase review generation'', JStr ''Improve online presence'',
                    JStr ''Monitor competitors'']),
           (''marketOpportunity'', JStr ''Growth potential in local market''),
           (''competitivePositioning'', JStr ''Positioned for market expansion'')]"

definition generateAIInsights :: "(string \<Rightarrow> json option) \<Rightarrow> AiCall \<Rightarrow> json" where
  "generateAIInsights parse call =
     (case call of
        CallThrows \<Rightarrow> fallbackInsights
      | Replied content \<Rightarrow>
          (case parse (case content of
                         None \<Rightarrow> ''{}''
                       | Some text \<Rightarrow> if text = [] then ''{}'' else text) of
             None \<Rightarrow> fallbackInsights
           | Some v \<Rightarrow> v))"

datatype error = TypeError | NoResultsError

text \<open>
  Reading a property: \<^verbatim>\<open>null.p\<close> throws a TypeError; on an object the value of the key
  or \<^verbatim>\<open>undefined\<close> (\<open>None\<close>); on a boolean, a number, a string or an array the five
  names read below are \<^verbatim>\<open>undefined\<close>.
\<close>

fun getProp :: "json \<Rightarrow> string \<Rightarrow> error + json option" where
  "getProp JNull p = Inl TypeError"
| "getProp (JObj kvs) p = Inr (map_of kvs p)"
| "getProp v p = Inr None"

text \<open>\<^verbatim>\<open>typeof x === 'string' ? x : d\<close> and \<^verbatim>\<open>Array.isArray(x) ? x : d\<close>\<close>

fun stringOr :: "json option \<Rightarrow> string \<Rightarrow> string" where
  "stringOr (Some (JStr s)) d = s"
| "stringOr v d = d"

fun arrayOr :: "json option \<Rightarrow> json list \<Rightarrow> json list" where
  "arrayOr (Some (JArr xs)) d = xs"
| "arrayOr v d = d"

text \<open>
  \<^verbatim>\<open>scoreLeadWithAI\<close>: the object literal reads the five properties in the order of the
  source; the first read that throws leaves the \<^verbatim>\<open>try\<close> block and the \<^verbatim>\<open>catch\<close> block
  returns the basic insights.
\<close>

definition scoreLeadWithAI ::
  "(number \<Rightarrow> string) \<Rightarrow> (string \<Rightarrow> json option) \<Rightarrow> AiCall \<Rightarrow> Lead \<Rightarrow> Competitor list \<Rightarrow>
   MarketingInsights" where
  "scoreLeadWithAI numStr parse call lead competitors =
     (let basicInsights = scoreLead numStr (Lead.rating lead) (Lead.reviewCount lead) competitors;
          aiInsights = generateAIInsights parse call
      in case getProp aiInsights ''intelligentInsights'' of
           Inl e \<Rightarrow> basicInsights
         | Inr intelligent \<Rightarrow>
        (case getProp aiInsights ''industrySpecificAdvice'' of
           Inl e \<Rightarrow> basicInsights
         | Inr advice \<Rightarrow>
        (case getProp aiInsights ''personalizedRecommendations'' of
           Inl e \<Rightarrow> basicInsights
         | Inr personalized \<Rightarrow>
        (case getProp aiInsights ''marketOpportunity'' of
           Inl e \<Rightarrow> basicInsights
         | Inr opportunity \<Rightarrow>
        (case getProp aiInsights ''competitivePositioning'' of
           Inl e \<Rightarrow> basicInsights
         | Inr positioning \<Rightarrow>
             basicInsights
               \<lparr>intelligentInsights := Some (stringOr intelligent ''AI analysis results available''),
                industrySpecificAdvice :=
                  Some (stringOr advice ''Industry-specific recommendations available''),
                aiRecommendations :=
                  Some (arrayOr personalized [JStr ''AI-powered recommendations available'']),
                marketingOpportunity :=
                  stringOr opportunity (marketingOpportunity basicInsights),
                competitivePosition :=
                  stringOr positioning (competitivePosition basicInsights)\<rparr>)))))"

section \<open>TenPackAnalysisService\<close>

record TenPackBusiness =
  name :: string
  rating :: number
  reviewCount :: number
  placeId :: string
  address :: string

record EntryThreshold =
  reviewsNeeded :: number
  ratingNeeded :: number

record TenPackAnalysis =
  businesses :: "TenPackBusiness list"
  averageRating :: number
  averageReviews :: number
  medianReviews :: number
  reviewRangeMin :: number
  reviewRangeMax :: number
  ratingRangeMin :: number
  ratingRangeMax :: number
  topPerformer :: TenPackBusiness
  entryThreshold :: EntryThreshold

text \<open>
  \<^verbatim>\<open>xs.reduce(f)\<close> with no initial value: the first element starts the fold, and an empty
  array throws a TypeError.
\<close>

fun reduce1 :: "('a \<Rightarrow> 'a \<Rightarrow> 'a) \<Rightarrow> 'a list \<Rightarrow> error + 'a" where
  "reduce1 f [] = Inl TypeError"
| "reduce1 f (x # xs) = Inr (foldl f x xs)"

text \<open>The callback of the top-performer reduce: highest rating, then highest review count.\<close>

definition better :: "TenPackBusiness \<Rightarrow> TenPackBusiness \<Rightarrow> TenPackBusiness" where
  "better top' current =
     (if TenPackBusiness.rating current > TenPackBusiness.rating top' then current
      else if TenPackBusiness.rating current = TenPackBusiness.rating top'
              \<and> TenPackBusiness.reviewCount current > TenPackBusiness.reviewCount top' then current
      else top')"

text \<open>\<^verbatim>\<open>businesses[businesses.length - 1]\<close>: \<^verbatim>\<open>undefined\<close> on an empty array.\<close>

definition lastElement :: "'a list \<Rightarrow> 'a option" where
  "lastElement xs = (if xs = [] then None else Some (last xs))"

text \<open>
  The statistics of \<^verbatim>\<open>analyzeTenPack\<close> (from \<^verbatim>\<open>// Calculate statistics\<close> to the return).
  The values are bound in the order of the source. On an empty list the averages, the
  median and the ranges of the source are NaN or infinite, which the rationals do not
  have; the reduce throws there before any of them is returned.
\<close>

definition tenPackStatistics :: "TenPackBusiness list \<Rightarrow> error + TenPackAnalysis" where
  "tenPackStatistics bs =
     (let ratings = map TenPackBusiness.rating bs;
          reviewCounts = map TenPackBusiness.reviewCount bs;
          avgRating = sumOf ratings / of_nat (length ratings);
          avgReviews = sumOf reviewCounts / of_nat (length reviewCounts);
          sortedReviews = sort reviewCounts;
          median =
            (if length sortedReviews mod 2 = 0
             then (sortedReviews ! (length sortedReviews div 2 - 1) +
                   sortedReviews ! (length sortedReviews div 2)) / 2
             else sortedReviews ! (length sortedReviews div 2));
          ratingMin = Math_min ratings
      in case reduce1 better bs of
           Inl e \<Rightarrow> Inl e
         | Inr top' \<Rightarrow>
             let tenthPosition = lastElement bs;
                 threshold =
                   \<lparr>reviewsNeeded =
                      (case tenthPosition of
                         Some b \<Rightarrow> TenPackBusiness.reviewCount b + 1
                       | None \<Rightarrow> Math_ceil (avgReviews * (7 / 10))),
                    ratingNeeded = max 4 ratingMin\<rparr>
             in Inr \<lparr>businesses = bs,
                     averageRating = avgRating,
                     averageReviews = avgReviews,
                     medianReviews = median,
                     reviewRangeMin = Math_min reviewCounts,
                     reviewRangeMax = Math_max reviewCounts,
                     ratingRangeMin = ratingMin,
                     ratingRangeMax = Math_max ratings,
                     topPerformer = top',
                     entryThreshold = threshold\<rparr>)"

text \<open>
  The reply of the place text search, as far as \<^verbatim>\<open>analyzeTenPack\<close> reads it. A missing
  field is \<open>None\<close>.
\<close>

record Place =
  place_name :: string
  place_rating :: "number option"
  user_ratings_total :: "number option"
  place_id :: string
  formatted_address :: "string option"
  vicinity :: "string option"

record SearchReply =
  status :: string
  results :: "Place list option"

text \<open>\<^verbatim>\<open>a || d\<close> on an optional string: \<open>d\<close> when \<open>a\<close> is missing or empty.\<close>

definition orElse :: "string option \<Rightarrow> string \<Rightarrow> string" where
  "orElse v d = (case v of None \<Rightarrow> d | Some s \<Rightarrow> if s = [] then d else s)"

text \<open>
  The filter and the map over the results in one step: a place passes the filter when its
  rating and its review total are both present and not zero (truthy), and then becomes a
  business.
\<close>

definition toBusiness :: "Place \<Rightarrow> TenPackBusiness option" where
  "toBusiness place =
     (case (place_rating place, user_ratings_total place) of
        (Some r, Some n) \<Rightarrow>
          if r \<noteq> 0 \<and> n \<noteq> 0
          then Some \<lparr>name = place_name place, rating = r, reviewCount = n,
                      placeId = place_id place,
                      address = orElse (formatted_address place) (orElse (vicinity place) [])\<rparr>
          else None
      | _ \<Rightarrow> None)"

text \<open>
  \<^verbatim>\<open>analyzeTenPack\<close> from the parsed reply on: no usable result throws the Error of the
  source; the first ten results that carry a rating and a review total are the cohort.
\<close>

definition analyzeTenPack :: "SearchReply \<Rightarrow> error + TenPackAnalysis" where
  "analyzeTenPack data =
     (case results data of
        None \<Rightarrow> Inl NoResultsError
      | Some rs \<Rightarrow>
          if status data \<noteq> ''OK'' \<or> length rs = 0 then Inl NoResultsError
          else tenPackStatistics (List.map_filter toBusiness (take 10 rs)))"

text \<open>
  The standard median in the words of the specification: the middle value of the sorted
  values, the mean of the two middle values when their number is even. The middle is
  reached by dropping the smallest and the largest value until one or two remain.
\<close>

fun middle :: "number list \<Rightarrow> number" where
  "middle [] = 0"
| "middle [x] = x"
| "middle [x, y] = (x + y) / 2"
| "middle (x # y # z # zs) = middle (butlast (y # z # zs))"

definition standardMedian :: "number list \<Rightarrow> number" where
  "standardMedian xs = middle (sort xs)"

section \<open>GooglePlacesService: the name-match validator\<close>

text \<open>
  Strings are ASCII \<open>char\<close> lists. \<^verbatim>\<open>\w\<close> is a letter, a digit or the underscore;
  \<^verbatim>\<open>\s\<close> and \<^verbatim>\<open>trim\<close> know the six ASCII white-space characters; every other
  character is punctuation for the cleaning.
\<close>

definition isWordChar :: "char \<Rightarrow> bool" where
  "isWordChar c =
     (c \<in> set ''abcdefghijklmnopqrstuvwxyzABCDEFGHIJKLMNOPQRSTUVWXYZ0123456789_'')"

definition isSpaceChar :: "char \<Rightarrow> bool" where
  "isSpaceChar c =
     (c \<in> set [CHR '' '', CHR 0x09, CHR 0x0A, CHR 0x0B, CHR 0x0C, CHR 0x0D])"

definition toLowerChar :: "char \<Rightarrow> char" where
  "toLowerChar c =
     (case map_of (zip ''ABCDEFGHIJKLMNOPQRSTUVWXYZ'' ''abcdefghijklmnopqrstuvwxyz'') c of
        None \<Rightarrow> c
      | Some l \<Rightarrow> l)"

definition toLowerCase :: "string \<Rightarrow> string" where
  "toLowerCase s = map toLowerChar s"

definition trim :: "string \<Rightarrow> string" where
  "trim s = rev (dropWhile isSpaceChar (rev (dropWhile isSpaceChar s)))"

text \<open>\<^verbatim>\<open>s.split(sep)\<close> for a one-character separator: never an empty array.\<close>

fun splitOn :: "char \<Rightarrow> string \<Rightarrow> string list" where
  "splitOn sep [] = [[]]"
| "splitOn sep (c # cs) =
     (if c = sep then [] # splitOn sep cs
      else (case splitOn sep cs of
              [] \<Rightarrow> [[c]]
            | w # ws \<Rightarrow> (c # w) # ws))"

text \<open>\<^verbatim>\<open>words.join(' ')\<close>\<close>

fun joinSpace :: "string list \<Rightarrow> string" where
  "joinSpace [] = []"
| "joinSpace [w] = w"
| "joinSpace (w # v # ws) = w @ CHR '' '' # joinSpace (v # ws)"

text \<open>\<^verbatim>\<open>s.includes(t)\<close>\<close>

fun includesStr :: "string \<Rightarrow> string \<Rightarrow> bool" where
  "includesStr [] t = (t = [])"
| "includesStr (c # cs) t = (take (length t) (c # cs) = t \<or> includesStr cs t)"

text \<open>
  The first replace of \<^verbatim>\<open>cleanBusinessName\<close>,
  \<^verbatim>\<open>/\b(restaurant|cafe|bistro|diner|grill|bar|pub|llc|inc|corp|ltd|co\.?)\b/g\<close>.
  Between two \<^verbatim>\<open>\b\<close> only a whole maximal run of word characters can match, so the
  scan collects the current run in \<open>run\<close> and drops it at its end when it is one of the
  listed words. \<^verbatim>\<open>co\.?\<close> takes the dot too when a word character follows the dot
  (only then is there a \<^verbatim>\<open>\b\<close> after the dot); otherwise the dot stays.
\<close>

definition suffixWords :: "string list" where
  "suffixWords =
     [''restaurant'', ''cafe'', ''bistro'', ''diner'', ''grill'', ''bar'', ''pub'', ''llc'',
      ''inc'', ''corp'', ''ltd'', ''co'']"

definition keepRun :: "string \<Rightarrow> string" where
  "keepRun run = (if run \<in> set suffixWords then [] else run)"

fun removeSuffixWords :: "string \<Rightarrow> string \<Rightarrow> string" where
  "removeSuffixWords run [] = keepRun run"
| "removeSuffixWords run (c # cs) =
     (if isWordChar c then removeSuffixWords (run @ [c]) cs
      else if run = ''co'' \<and> c = CHR ''.'' \<and> (case cs of [] \<Rightarrow> False | d # ds \<Rightarrow> isWordChar d)
      then removeSuffixWords [] cs
      else keepRun run @ c # removeSuffixWords [] cs)"

text \<open>\<^verbatim>\<open>replace(/[^\w\s]/g, '')\<close> and \<^verbatim>\<open>replace(/\s+/g, ' ')\<close>\<close>

definition removePunctuation :: "string \<Rightarrow> string" where
  "removePunctuation s = filter (\<lambda>c. isWordChar c \<or> isSpaceChar c) s"

fun normalizeSpaces :: "bool \<Rightarrow> string \<Rightarrow> string" where
  "normalizeSpaces inRun [] = []"
| "normalizeSpaces inRun (c # cs) =
     (if isSpaceChar c
      then (if inRun then normalizeSpaces True cs else CHR '' '' # normalizeSpaces True cs)
      else c # normalizeSpaces False cs)"

definition cleanBusinessName :: "string \<Rightarrow> string" where
  "cleanBusinessName nm =
     trim (normalizeSpaces False (removePunctuation (removeSuffixWords [] (toLowerCase nm))))"

definition locationTerms :: "string list" where
  "locationTerms =
    [''al'', ''alabama'', ''ak'', ''alaska'', ''az'', ''arizona'', ''ar'', ''arkansas'',
     ''ca'', ''california'', ''co'', ''colorado'', ''ct'', ''connecticut'', ''de'',
     ''delaware'', ''fl'', ''florida'', ''ga'', ''georgia'', ''hi'', ''hawaii'', ''id'',
     ''idaho'', ''il'', ''illinois'', ''in'', ''indiana'', ''ia'', ''iowa'', ''ks'',
     ''kansas'', ''ky'', ''kentucky'', ''la'', ''louisiana'', ''me'', ''maine'', ''md'',
     ''maryland'', ''ma'', ''massachusetts'', ''mi'', ''michigan'', ''mn'', ''minnesota'',
     ''ms'', ''mississippi'', ''mo'', ''missouri'', ''mt'', ''montana'', ''ne'',
     ''nebraska'', ''nv'', ''nevada'', ''nh'', ''new hampshire'', ''nj'', ''new jersey'',
     ''nm'', ''new mexico'', ''ny'', ''new york'', ''nc'', ''north carolina'', ''nd'',
     ''north dakota'', ''oh'', ''ohio'', ''ok'', ''oklahoma'', ''or'', ''oregon'', ''pa'',
     ''pennsylvania'', ''ri'', ''rhode island'', ''sc'', ''south carolina'', ''sd'',
     ''south dakota'', ''tn'', ''tennessee'', ''tx'', ''texas'', ''ut'', ''utah'', ''vt'',
     ''vermont'', ''va'', ''virginia'', ''wa'', ''washington'', ''wv'', ''west virginia'',
     ''wi'', ''wisconsin'', ''wy'', ''wyoming'', ''city'', ''town'', ''village'',
     ''downtown'', ''metro'', ''area'', ''region'', ''county'', ''houston'', ''dallas'',
     ''austin'', ''san antonio'', ''fort worth'', ''el paso'', ''arlington'',
     ''corpus christi'', ''plano'', ''laredo'', ''lubbock'', ''garland'', ''irving'',
     ''amarillo'', ''grand prairie'', ''brownsville'', ''pasadena'', ''mesquite'',
     ''mckinney'', ''killeen'', ''frisco'', ''carrollton'', ''denton'', ''midland'',
     ''abilene'', ''beaumont'', ''round rock'', ''richardson'', ''odessa'', ''waco'',
     ''lewisville'', ''tyler'', ''college station'', ''pearland'', ''sugar land'',
     ''baytown'', ''conroe'', ''longview'', ''bryan'', ''pharr'', ''missouri city'',
     ''temple'', ''flower mound'', ''league city'', ''cedar park'', ''harlingen'',
     ''north richland hills'', ''victoria'', ''san marcos'', ''new braunfels'',
     ''georgetown'', ''sherman'', ''rowlett'', ''texarkana'', ''huntsville'',
     ''galveston'', ''cedar hill'', ''wylie'', ''desoto'', ''burleson'', ''mansfield'',
     ''allen'', ''the woodlands'', ''pflugerville'', ''big spring'', ''mission'',
     ''port arthur'', ''euless'', ''grapevine'', ''bedford'', ''hurst'', ''keller'',
     ''coppell'', ''duncanville'', ''haltom city'', ''farmers branch'', ''southlake'',
     ''lancaster'', ''carrollton'', ''lorena'', ''hewitt'', ''robinson'', ''woodway'',
     ''bellmead'', ''lacy lakeview'', ''beverly hills'']"

definition removeLocationTerms :: "string \<Rightarrow> string" where
  "removeLocationTerms nm =
     (let words = splitOn CHR '' '' (toLowerCase nm);
          filteredWords = filter (\<lambda>word. word \<notin> set locationTerms) words
      in joinSpace filteredWords)"

text \<open>
  \<^verbatim>\<open>calculateStringSimilarity\<close>. The matrix has one row for each prefix of \<open>str2\<close> and
  one column for each prefix of \<open>str1\<close>; it is filled row by row, each row from the left.
  \<open>rowCells\<close> computes the cells 1.. of a row from the row above (\<open>diag\<close>, \<open>up\<close>) and the
  cell to the left; \<open>fillMatrix\<close> returns the last row. The quotient is exact here; on
  doubles \<^verbatim>\<open>1 - d / m\<close> compares with 0.95 and 0.8 as the exact value does for every
  string length below \<open>2 ^ 40\<close>.
\<close>

fun rowCells :: "char \<Rightarrow> string \<Rightarrow> nat list \<Rightarrow> nat \<Rightarrow> nat list" where
  "rowCells c2 (c1 # s1) (diag # up # prev) left =
     (let cell = (if c2 = c1 then diag else min (diag + 1) (min (left + 1) (up + 1)))
      in cell # rowCells c2 s1 (up # prev) cell)"
| "rowCells c2 s1 prev left = []"

fun fillMatrix :: "string \<Rightarrow> string \<Rightarrow> nat list \<Rightarrow> nat \<Rightarrow> nat list" where
  "fillMatrix str1 [] row i = row"
| "fillMatrix str1 (c2 # s2) row i =
     fillMatrix str1 s2 (Suc i # rowCells c2 str1 row (Suc i)) (Suc i)"

definition levenshtein :: "string \<Rightarrow> string \<Rightarrow> nat" where
  "levenshtein str1 str2 = last (fillMatrix str1 str2 [0 ..< Suc (length str1)] 0)"

definition calculateStringSimilarity :: "string \<Rightarrow> string \<Rightarrow> number" where
  "calculateStringSimilarity str1 str2 =
     (let len1 = length str1; len2 = length str2
      in if len1 = 0 then (if len2 = 0 then 1 else 0)
         else if len2 = 0 then 0
         else 1 - of_nat (levenshtein str1 str2) / of_nat (max len1 len2))"

text \<open>
  The inner loop of \<^verbatim>\<open>isBusinessNameMatch\<close>: a search word runs through the found words
  and stops (\<^verbatim>\<open>break\<close>) at the first one it equals, or, both longer than four
  characters and one containing the other, resembles by at least 0.8.
\<close>

datatype Hit = ExactHit | PartialHit | NoHit

fun scanFound :: "string \<Rightarrow> string list \<Rightarrow> Hit" where
  "scanFound searchWord [] = NoHit"
| "scanFound searchWord (foundWord # foundWords) =
     (if searchWord = foundWord then ExactHit
      else if length searchWord > 4 \<and> length foundWord > 4
              \<and> (includesStr foundWord searchWord \<or> includesStr searchWord foundWord)
              \<and> calculateStringSimilarity searchWord foundWord \<ge> 4 / 5
      then PartialHit
      else scanFound searchWord foundWords)"

text \<open>The outer loop: the counters \<open>(keywordMatches, exactMatches)\<close>.\<close>

definition countMatches :: "string list \<Rightarrow> string list \<Rightarrow> nat \<times> nat" where
  "countMatches searchWords foundWords =
     foldl (\<lambda>(keywordMatches, exactMatches) searchWord.
              case scanFound searchWord foundWords of
                ExactHit \<Rightarrow> (keywordMatches + 1, exactMatches + 1)
              | PartialHit \<Rightarrow> (keywordMatches + 1, exactMatches)
              | NoHit \<Rightarrow> (keywordMatches, exactMatches))
       (0, 0) searchWords"

definition searchTypeWords :: "string list" where
  "searchTypeWords =
     [''restaurant'', ''cafe'', ''bistro'', ''grill'', ''grille'', ''bar'', ''pub'', ''diner'',
      ''pizzeria'', ''bakery'']"

definition hasType :: "string list \<Rightarrow> bool" where
  "hasType words = list_ex (\<lambda>word. word \<in> set searchTypeWords) words"

definition hasTypeMatch :: "string list \<Rightarrow> string list \<Rightarrow> bool" where
  "hasTypeMatch searchWords foundWords =
     (let searchTypes = filter (\<lambda>word. word \<in> set searchTypeWords) searchWords;
          foundTypes = filter (\<lambda>word. word \<in> set searchTypeWords) foundWords
      in list_ex (\<lambda>sType.
           list_ex (\<lambda>fType. sType = fType
                       \<or> (sType = ''grill'' \<and> fType = ''grille'')
                       \<or> (sType = ''grille'' \<and> fType = ''grill'')) foundTypes) searchTypes)"

text \<open>
  \<^verbatim>\<open>(withoutLocation.trim() || cleanName).split(' ').filter(word => word.length > 2)\<close>
\<close>

definition nameKeywords :: "string \<Rightarrow> string \<Rightarrow> string list" where
  "nameKeywords withoutLocation cleanName =
     filter (\<lambda>word. length word > 2)
       (splitOn CHR '' ''
          (if trim withoutLocation \<noteq> [] then trim withoutLocation else cleanName))"

text \<open>
  \<^verbatim>\<open>Math.ceil(totalKeywords * requiredMatchRatio)\<close> with the ratio 0.6 or 0.75. The
  product with 0.75 is exact on doubles; the product with 0.6 rounds to the integer
  \<open>3 * n / 5\<close> whenever that is one, so the ceiling is that of the exact product.
\<close>

definition requiredMatches :: "nat \<Rightarrow> bool \<Rightarrow> number" where
  "requiredMatches totalKeywords hasLocationTerms =
     (let requiredMatchRatio = (if hasLocationTerms then 3 / 5 else 3 / 4)
      in Math_ceil (of_nat totalKeywords * requiredMatchRatio))"

text \<open>
  The keyword step (from \<^verbatim>\<open>// Extract key business name words\<close> to the end of the
  \<^verbatim>\<open>if (totalKeywords === 1) ... else ...\<close>): it returns true, returns false, or falls
  through to the similarity fallback. The two ratios of the source are only logged.
\<close>

datatype Verdict = Accept | Reject | FallThrough

definition keywordStep :: "string \<Rightarrow> string \<Rightarrow> string \<Rightarrow> string \<Rightarrow> Verdict" where
  "keywordStep cleanSearch searchWithoutLocation cleanFound foundWithoutLocation =
     (let searchWords = nameKeywords searchWithoutLocation cleanSearch;
          foundWords = nameKeywords foundWithoutLocation cleanFound;
          (keywordMatches, exactMatches) = countMatches searchWords foundWords;
          totalKeywords = max (length searchWords) 1
      in if totalKeywords = 1 then
           (if exactMatches = 1 then Accept else FallThrough)
         else if hasType searchWords \<and> hasType foundWords
                 \<and> \<not> hasTypeMatch searchWords foundWords then Reject
         else
           let hasLocationTerms = length searchWithoutLocation < length cleanSearch
           in if of_nat exactMatches \<ge> requiredMatches totalKeywords hasLocationTerms
              then Accept else FallThrough)"

text \<open>The cleaned names of the query (its part before the first comma) and of the candidate.\<close>

definition cleanSearchName :: "string \<Rightarrow> string" where
  "cleanSearchName searchQuery =
     cleanBusinessName (toLowerCase (trim (hd (splitOn CHR '','' (trim searchQuery)))))"

definition cleanFoundName :: "string \<Rightarrow> string" where
  "cleanFoundName foundBusinessName = cleanBusinessName (toLowerCase foundBusinessName)"

definition isBusinessNameMatch :: "string \<Rightarrow> string \<Rightarrow> bool" where
  "isBusinessNameMatch searchQuery foundBusinessName =
     (let cleanSearch = cleanSearchName searchQuery;
          cleanFound = cleanFoundName foundBusinessName;
          searchWithoutLocation = removeLocationTerms cleanSearch;
          foundWithoutLocation = removeLocationTerms cleanFound
      in if foundWithoutLocation = searchWithoutLocation \<and> trim searchWithoutLocation \<noteq> []
         then True
         else if cleanFound = cleanSearch then True
         else (case keywordStep cleanSearch searchWithoutLocation cleanFound foundWithoutLocation of
                 Accept \<Rightarrow> True
               | Reject \<Rightarrow> False
               | FallThrough \<Rightarrow> calculateStringSimilarity cleanSearch cleanFound \<ge> 19 / 20))"

text \<open>
  The local values of \<^verbatim>\<open>isBusinessNameMatch\<close> as functions of its two arguments: the
  keyword lists, the count of exact hits, whether location filtering shortened the cleaned
  query, the two equality checks of the exact-match step, and the similarity of the
  cleaned names.
\<close>

definition searchWords :: "string \<Rightarrow> string list" where
  "searchWords searchQuery =
     nameKeywords (removeLocationTerms (cleanSearchName searchQuery)) (cleanSearchName searchQuery)"

definition foundWords :: "string \<Rightarrow> string list" where
  "foundWords foundBusinessName =
     nameKeywords (removeLocationTerms (cleanFoundName foundBusinessName))
       (cleanFoundName foundBusinessName)"

definition exactMatches :: "string \<Rightarrow> string \<Rightarrow> nat" where
  "exactMatches searchQuery foundBusinessName =
     snd (countMatches (searchWords searchQuery) (foundWords foundBusinessName))"

definition hasLocationTerms :: "string \<Rightarrow> bool" where
  "hasLocationTerms searchQuery =
     (length (removeLocationTerms (cleanSearchName searchQuery))
        < length (cleanSearchName searchQuery))"

definition locationFilteredEqual :: "string \<Rightarrow> string \<Rightarrow> bool" where
  "locationFilteredEqual searchQuery foundBusinessName =
     (removeLocationTerms (cleanFoundName foundBusinessName)
        = removeLocationTerms (cleanSearchName searchQuery)
      \<and> trim (removeLocationTerms (cleanSearchName searchQuery)) \<noteq> [])"

definition cleanNamesEqual :: "string \<Rightarrow> string \<Rightarrow> bool" where
  "cleanNamesEqual searchQuery foundBusinessName =
     (cleanFoundName foundBusinessName = cleanSearchName searchQuery)"

definition nameSimilarity :: "string \<Rightarrow> string \<Rightarrow> number" where
  "nameSimilarity searchQuery foundBusinessName =
     calculateStringSimilarity (cleanSearchName searchQuery) (cleanFoundName foundBusinessName)"

definition keywordVerdict :: "string \<Rightarrow> string \<Rightarrow> Verdict" where
  "keywordVerdict searchQuery foundBusinessName =
     keywordStep (cleanSearchName searchQuery)
       (removeLocationTerms (cleanSearchName searchQuery))
       (cleanFoundName foundBusinessName)
       (removeLocationTerms (cleanFoundName foundBusinessName))"

text \<open>
  The type words of the two keyword lists are incompatible: no type word of the query
  equals a type word of the candidate, \<open>grill\<close> and \<open>grille\<close> counting as equal.
\<close>

definition typesIncompatible :: "string list \<Rightarrow> string list \<Rightarrow> bool" where
  "typesIncompatible sWords fWords =
     (\<not> (\<exists>s \<in> set sWords \<inter> set searchTypeWords. \<exists>t \<in> set fWords \<inter> set searchTypeWords.
            s = t \<or> (s = ''grill'' \<and> t = ''grille'') \<or> (s = ''grille'' \<and> t = ''grill'')))"

text \<open>
  The Levenshtein distance in the words of the specification, by its usual recurrence on
  the last characters of two strings: the distance to an empty string is the length of
  the other; equal last characters cost nothing; otherwise one substitution, insertion or
  deletion is paid. \<open>editDistanceRev\<close> reads the strings from their ends, so it takes them
  reversed.
\<close>

fun editDistanceRev :: "string \<Rightarrow> string \<Rightarrow> nat" where
  "editDistanceRev [] t = length t"
| "editDistanceRev s [] = length s"
| "editDistanceRev (a # s) (b # t) =
     (if a = b then editDistanceRev s t
      else min (editDistanceRev s t + 1)
             (min (editDistanceRev s (b # t) + 1) (editDistanceRev (a # s) t + 1)))"

definition editDistance :: "string \<Rightarrow> string \<Rightarrow> nat" where
  "editDistance str1 str2 = editDistanceRev (rev str1) (rev str2)"

section \<open>Properties of the scoring rules\<close>

lemma scoreLead_score:
  "MarketingInsights.score (scoreLead numStr r n cs) =
     (if r < 4 then C else if n \<ge> 100 then C else if r \<ge> 4 \<and> n < 50 then A else B)"
  by (simp add: scoreLead_def Let_def)

lemma scoreLead_urgency:
  "urgencyLevel (scoreLead numStr r n cs) =
     (if r < 4 then High else if n \<ge> 100 then Low else if r \<ge> 4 \<and> n < 50 then High
      else Medium)"
  by (simp add: scoreLead_def Let_def)

text \<open>
  C1. The tier and the urgency of \<open>scoreLead\<close> follow the four rules in order, the first
  rule that applies deciding: rating below 4.0 gives C/High; else 100 reviews or more give
  C/Low; else rating at least 4.0 with fewer than 50 reviews gives A/High; else B/Medium.
  For every competitor cohort (3.9, 10) is C, (4.5, 30) is A, (4.5, 150) is C and
  (4.2, 70) is B.
\<close>

theorem scoreLead_rules:
  "(MarketingInsights.score (scoreLead numStr r n cs), urgencyLevel (scoreLead numStr r n cs)) =
     (if r < 4 then (C, High)
      else if n \<ge> 100 then (C, Low)
      else if r \<ge> 4 \<and> n < 50 then (A, High)
      else (B, Medium))
   \<and> MarketingInsights.score (scoreLead numStr (39 / 10) 10 cs) = C
   \<and> MarketingInsights.score (scoreLead numStr (45 / 10) 30 cs) = A
   \<and> MarketingInsights.score (scoreLead numStr (45 / 10) 150 cs) = C
   \<and> MarketingInsights.score (scoreLead numStr (42 / 10) 70 cs) = B"
  by (simp add: scoreLead_score scoreLead_urgency)

theorem scoreLead_rules_witness:
  "MarketingInsights.score (scoreLead (\<lambda>x. []) (9 / 2) 30 []) = A
   \<and> urgencyLevel (scoreLead (\<lambda>x. []) (9 / 2) 30 []) = High"
  using scoreLead_rules [of "\<lambda>x. []" "9 / 2" 30 "[]"] by simp

lemma scoreLeadWithAI_score:
  "MarketingInsights.score (scoreLeadWithAI numStr parse call lead cs) =
   MarketingInsights.score (scoreLead numStr (Lead.rating lead) (Lead.reviewCount lead) cs)"
  by (simp add: scoreLeadWithAI_def Let_def split: sum.splits)

text \<open>
  C9. The tier returned by the AI-augmented path is the tier of the rule-based scoring on
  the same rating, review count and cohort, whatever the text-generation call does (it
  throws, its content does not parse, or it parses to any JSON value); the tier is a
  function of these three inputs only, so leads that agree on them get the same tier.
\<close>

theorem scoreLeadWithAI_tier_pure:
  "MarketingInsights.score (scoreLeadWithAI numStr parse call lead cs) =
     MarketingInsights.score (scoreLead numStr (Lead.rating lead) (Lead.reviewCount lead) cs)
   \<and> MarketingInsights.score (scoreLeadWithAI numStr parse call lead cs) =
     (if Lead.rating lead < 4 then C
      else if Lead.reviewCount lead \<ge> 100 then C
      else if Lead.rating lead \<ge> 4 \<and> Lead.reviewCount lead < 50 then A
      else B)
   \<and> (Lead.rating lead = Lead.rating lead' \<and> Lead.reviewCount lead = Lead.reviewCount lead' \<longrightarrow>
        MarketingInsights.score (scoreLeadWithAI numStr parse call lead cs) =
        MarketingInsights.score (scoreLeadWithAI numStr' parse' call' lead' cs))"
  by (simp add: scoreLeadWithAI_score scoreLead_score)

theorem scoreLeadWithAI_tier_pure_witness:
  "MarketingInsights.score
     (scoreLeadWithAI (\<lambda>x. []) (\<lambda>s. Some JNull) (Replied (Some ''null''))
        \<lparr>Lead.id = ''1'', Lead.name = ''Ace Pest Control'', Lead.address = ''Waco, TX'',
         Lead.placeId = None, Lead.rating = 9 / 2, Lead.reviewCount = 30, Lead.score = C,
         Lead.gapAnalysis = [], Lead.lat = None, Lead.lng = None\<rparr> []) = A
   \<and> MarketingInsights.score
     (scoreLeadWithAI (\<lambda>x. ''n'') (\<lambda>s. None) CallThrows
        \<lparr>Lead.id = ''2'', Lead.name = ''Bee Plumbing'', Lead.address = ''Austin, TX'',
         Lead.placeId = None, Lead.rating = 9 / 2, Lead.reviewCount = 30, Lead.score = B,
         Lead.gapAnalysis = [], Lead.lat = None, Lead.lng = None\<rparr> []) = A"
  using scoreLeadWithAI_tier_pure
    [of "\<lambda>x. []" "\<lambda>s. Some JNull" "Replied (Some ''null'')"
        "\<lparr>Lead.id = ''1'', Lead.name = ''Ace Pest Control'', Lead.address = ''Waco, TX'',
         Lead.placeId = None, Lead.rating = 9 / 2, Lead.reviewCount = 30, Lead.score = C,
         Lead.gapAnalysis = [], Lead.lat = None, Lead.lng = None\<rparr>" "[]"
        "\<lparr>Lead.id = ''2'', Lead.name = ''Bee Plumbing'', Lead.address = ''Austin, TX'',
         Lead.placeId = None, Lead.rating = 9 / 2, Lead.reviewCount = 30, Lead.score = B,
         Lead.gapAnalysis = [], Lead.lat = None, Lead.lng = None\<rparr>"
        "\<lambda>x. ''n''" "\<lambda>s. None" CallThrows]
  by (auto simp: scoreLead_score)

section \<open>Properties of the ten-pack statistics\<close>

lemma foldl_min_Min: "foldl min (x :: number) xs = Min (set (x # xs))"
  by (simp add: Min.set_eq_fold foldl_conv_fold min.commute del: set_simps)

lemma Math_min_Min: "xs \<noteq> [] \<Longrightarrow> Math_min xs = Min (set xs)"
  by (cases xs) (simp_all add: Math_min_def foldl_min_Min del: set_simps)

lemma reduce1_nonempty: "bs \<noteq> [] \<Longrightarrow> reduce1 f bs = Inr (foldl f (hd bs) (tl bs))"
  by (cases bs) simp_all

lemma tenPackStatistics_nonempty:
  assumes "bs \<noteq> []"
  shows "\<exists>a. tenPackStatistics bs = Inr a
     \<and> businesses a = bs
     \<and> medianReviews a =
         (let s = sort (map TenPackBusiness.reviewCount bs)
          in if length s mod 2 = 0 then (s ! (length s div 2 - 1) + s ! (length s div 2)) / 2
             else s ! (length s div 2))
     \<and> reviewsNeeded (entryThreshold a) = TenPackBusiness.reviewCount (last bs) + 1
     \<and> ratingNeeded (entryThreshold a) = max 4 (Math_min (map TenPackBusiness.rating bs))"
  using assms by (simp add: tenPackStatistics_def Let_def reduce1_nonempty lastElement_def)

lemma middle_index:
  "xs \<noteq> [] \<Longrightarrow>
   middle xs =
     (if length xs mod 2 = 0 then (xs ! (length xs div 2 - 1) + xs ! (length xs div 2)) / 2
      else xs ! (length xs div 2))"
proof (induction xs rule: middle.induct)
  case (4 x y z zs)
  let ?ys = "butlast (y # z # zs)"
  have len: "length ?ys = Suc (length zs)" by simp
  have ne: "?ys \<noteq> []" by simp
  have nth: "k < Suc (length zs) \<Longrightarrow> ?ys ! k = (x # y # z # zs) ! Suc k" for k
    by (simp add: nth_butlast del: butlast.simps)
  have half: "Suc (length zs) div 2 < Suc (length zs)" by simp
  have half': "Suc (length zs) div 2 - 1 < Suc (length zs)" by simp
  have div: "length (x # y # z # zs) div 2 = Suc (Suc (length zs) div 2)" by simp
  have md: "length (x # y # z # zs) mod 2 = Suc (length zs) mod 2" by simp
  have "middle (x # y # z # zs) = middle ?ys" by simp
  also have "\<dots> = (if length ?ys mod 2 = 0
       then (?ys ! (length ?ys div 2 - 1) + ?ys ! (length ?ys div 2)) / 2
       else ?ys ! (length ?ys div 2))"
    using 4 ne by blast
  also have "\<dots> = (if length (x # y # z # zs) mod 2 = 0
       then ((x # y # z # zs) ! (length (x # y # z # zs) div 2 - 1) +
             (x # y # z # zs) ! (length (x # y # z # zs) div 2)) / 2
       else (x # y # z # zs) ! (length (x # y # z # zs) div 2))"
  proof (cases "Suc (length zs) mod 2 = 0")
    case True
    then have pos: "0 < Suc (length zs) div 2" by presburger
    then have "Suc (Suc (length zs) div 2 - 1) = Suc (length zs) div 2" by simp
    then show ?thesis
      unfolding len md div using True nth [OF half] nth [OF half'] by simp
  next
    case False
    then show ?thesis
      unfolding len md div using nth [OF half] by simp
  qed
  finally show ?case .
qed simp_all

text \<open>
  C8. Over a non-empty cohort \<open>analyzeTenPack\<close> returns, and its \<open>medianReviews\<close> is the
  standard median of the members' review counts: the middle value of the sorted counts
  when their number is odd, the mean of the two middle values when it is even. Review
  counts 10, 20, 30, 40 give 25, and 10, 20, 30 give 20.
\<close>

theorem medianReviews_standard:
  "(bs \<noteq> [] \<longrightarrow>
      (\<exists>a. tenPackStatistics bs = Inr a
         \<and> medianReviews a = standardMedian (map TenPackBusiness.reviewCount bs)))
   \<and> (map TenPackBusiness.reviewCount bs = [10, 20, 30, 40] \<longrightarrow>
      (\<exists>a. tenPackStatistics bs = Inr a \<and> medianReviews a = 25))
   \<and> (map TenPackBusiness.reviewCount bs = [10, 20, 30] \<longrightarrow>
      (\<exists>a. tenPackStatistics bs = Inr a \<and> medianReviews a = 20))"
proof -
  have general: "\<exists>a. tenPackStatistics bs = Inr a
         \<and> medianReviews a = standardMedian (map TenPackBusiness.reviewCount bs)"
    if ne: "bs \<noteq> []" for bs
  proof -
    from tenPackStatistics_nonempty [OF ne] obtain a where
      a: "tenPackStatistics bs = Inr a" and
      m: "medianReviews a =
         (let s = sort (map TenPackBusiness.reviewCount bs)
          in if length s mod 2 = 0 then (s ! (length s div 2 - 1) + s ! (length s div 2)) / 2
             else s ! (length s div 2))"
      by blast
    have "sort (map TenPackBusiness.reviewCount bs) \<noteq> []"
      using ne by (metis length_0_conv length_map length_sort)
    from middle_index [OF this] m have "medianReviews a = standardMedian (map TenPackBusiness.reviewCount bs)"
      by (simp add: standardMedian_def Let_def)
    with a show ?thesis by blast
  qed
  have four: "\<exists>a. tenPackStatistics bs = Inr a \<and> medianReviews a = 25"
    if "map TenPackBusiness.reviewCount bs = [10, 20, 30, 40]"
  proof -
    from that have "bs \<noteq> []" by auto
    from general [OF this] that show ?thesis by (simp add: standardMedian_def)
  qed
  have three: "\<exists>a. tenPackStatistics bs = Inr a \<and> medianReviews a = 20"
    if "map TenPackBusiness.reviewCount bs = [10, 20, 30]"
  proof -
    from that have "bs \<noteq> []" by auto
    from general [OF this] that show ?thesis by (simp add: standardMedian_def)
  qed
  from general four three show ?thesis by blast
qed

theorem medianReviews_standard_witness:
  "\<exists>a. tenPackStatistics
          [\<lparr>name = ''Alpha'', rating = 9 / 2, reviewCount = 40, placeId = ''p1'', address = ''1 Main St''\<rparr>,
           \<lparr>name = ''Beta'', rating = 4, reviewCount = 10, placeId = ''p2'', address = ''2 Main St''\<rparr>,
           \<lparr>name = ''Gamma'', rating = 5, reviewCount = 30, placeId = ''p3'', address = ''3 Main St''\<rparr>,
           \<lparr>name = ''Delta'', rating = 3, reviewCount = 20, placeId = ''p4'', address = ''4 Main St''\<rparr>]
        = Inr a
      \<and> medianReviews a = 25"
  using medianReviews_standard
    [of "[\<lparr>name = ''Alpha'', rating = 9 / 2, reviewCount = 40, placeId = ''p1'', address = ''1 Main St''\<rparr>,
           \<lparr>name = ''Beta'', rating = 4, reviewCount = 10, placeId = ''p2'', address = ''2 Main St''\<rparr>,
           \<lparr>name = ''Gamma'', rating = 5, reviewCount = 30, placeId = ''p3'', address = ''3 Main St''\<rparr>,
           \<lparr>name = ''Delta'', rating = 3, reviewCount = 20, placeId = ''p4'', address = ''4 Main St''\<rparr>]"]
  by (simp add: standardMedian_def)

text \<open>
  C7. Over a non-empty cohort, kept in the order it arrived in, \<open>analyzeTenPack\<close> returns
  with \<open>reviewsNeeded\<close> one more than the review count of the last member (the fallback
  \<open>ceil (averageReviews * 0.7)\<close> is taken only when there is no last member) and
  \<open>ratingNeeded\<close> the larger of 4.0 and the smallest rating of the cohort. A cohort whose
  last member has 42 reviews gives \<open>reviewsNeeded = 43\<close>.
\<close>

theorem entryThreshold_last_member:
  "(bs \<noteq> [] \<longrightarrow>
      (\<exists>a. tenPackStatistics bs = Inr a
         \<and> businesses a = bs
         \<and> reviewsNeeded (entryThreshold a) = TenPackBusiness.reviewCount (last bs) + 1
         \<and> ratingNeeded (entryThreshold a) =
             max 4 (Min (set (map TenPackBusiness.rating bs)))))
   \<and> (TenPackBusiness.reviewCount b = 42 \<longrightarrow>
      (\<exists>a. tenPackStatistics (bs @ [b]) = Inr a \<and> reviewsNeeded (entryThreshold a) = 43))"
proof -
  have general: "\<exists>a. tenPackStatistics bs = Inr a
         \<and> businesses a = bs
         \<and> reviewsNeeded (entryThreshold a) = TenPackBusiness.reviewCount (last bs) + 1
         \<and> ratingNeeded (entryThreshold a) =
             max 4 (Min (set (map TenPackBusiness.rating bs)))"
    if ne: "bs \<noteq> []" for bs
  proof -
    from ne have "map TenPackBusiness.rating bs \<noteq> []" by simp
    from Math_min_Min [OF this] tenPackStatistics_nonempty [OF ne] show ?thesis
      by auto
  qed
  have "\<exists>a. tenPackStatistics (bs @ [b]) = Inr a \<and> reviewsNeeded (entryThreshold a) = 43"
    if "TenPackBusiness.reviewCount b = 42"
    using general [of "bs @ [b]"] that by auto
  with general show ?thesis by blast
qed

theorem entryThreshold_last_member_witness:
  "\<exists>a. tenPackStatistics
          [\<lparr>name = ''Alpha'', rating = 24 / 5, reviewCount = 200, placeId = ''p1'', address = ''1 Main St''\<rparr>,
           \<lparr>name = ''Beta'', rating = 7 / 2, reviewCount = 42, placeId = ''p2'', address = ''2 Main St''\<rparr>]
        = Inr a
      \<and> reviewsNeeded (entryThreshold a) = 43
      \<and> ratingNeeded (entryThreshold a) = 4"
  using entryThreshold_last_member
    [of "[\<lparr>name = ''Alpha'', rating = 24 / 5, reviewCount = 200, placeId = ''p1'', address = ''1 Main St''\<rparr>,
           \<lparr>name = ''Beta'', rating = 7 / 2, reviewCount = 42, placeId = ''p2'', address = ''2 Main St''\<rparr>]",
     THEN conjunct1]
  by simp blast

text \<open>
  C6. \<open>calculateMarketStats\<close> returns the zeroed statistics on an empty cohort, but the
  statistics of \<open>analyzeTenPack\<close> do not: on an empty cohort the top-performer reduce
  throws a TypeError. A reply whose only result carries no rating leaves the cohort empty
  after the filter, and \<open>analyzeTenPack\<close> throws.
\<close>

theorem analyzeTenPack_empty_cohort_throws:
  "calculateMarketStats [] =
     \<lparr>MarketStats.averageRating = 0, MarketStats.averageReviews = 0,
      MarketStats.totalCompetitors = 0, MarketStats.highPerformers = 0,
      MarketStats.reviewRangeMin = 0, MarketStats.reviewRangeMax = 0\<rparr>
   \<and> tenPackStatistics [] = Inl TypeError
   \<and> analyzeTenPack
       \<lparr>status = ''OK'',
        results = Some [\<lparr>place_name = ''New Shop'', place_rating = None,
                         user_ratings_total = None, place_id = ''p1'',
                         formatted_address = Some ''1 Main St'', vicinity = None\<rparr>]\<rparr>
     = Inl TypeError"
  by (simp add: calculateMarketStats_def tenPackStatistics_def analyzeTenPack_def
      toBusiness_def List.map_filter_simps Let_def)

theorem analyzeTenPack_empty_cohort_throws_witness:
  "isl (tenPackStatistics [])
   \<and> isl (analyzeTenPack
       \<lparr>status = ''OK'',
        results = Some [\<lparr>place_name = ''New Shop'', place_rating = None,
                         user_ratings_total = None, place_id = ''p1'',
                         formatted_address = Some ''1 Main St'', vicinity = None\<rparr>]\<rparr>)"
  using analyzeTenPack_empty_cohort_throws by simp

section \<open>Properties of the name-match validator\<close>

subsection \<open>The matrix computes the Levenshtein distance\<close>

text \<open>Cell \<open>(i, j)\<close> of the matrix holds the distance of the prefixes of length \<open>j\<close> and \<open>i\<close>.\<close>

lemma editDistanceRev_Nil2: "editDistanceRev s [] = length s"
  by (cases s) simp_all

lemma rowCells_row:
  assumes i: "i < length str2" and c2: "c2 = str2 ! i"
  shows "s1 = drop j str1 \<Longrightarrow> j \<le> length str1 \<Longrightarrow>
    rowCells c2 s1
      (map (\<lambda>k. editDistanceRev (rev (take k str1)) (rev (take i str2))) [j ..< Suc (length str1)])
      (editDistanceRev (rev (take j str1)) (rev (take (Suc i) str2)))
    = map (\<lambda>k. editDistanceRev (rev (take k str1)) (rev (take (Suc i) str2)))
        [Suc j ..< Suc (length str1)]"
proof (induction s1 arbitrary: j)
  case Nil
  then have "j = length str1" by simp
  then show ?case by simp
next
  case (Cons c1 s1)
  from Cons.prems have lt: "j < length str1"
    by (metis drop_all le_neq_implies_less list.distinct(1) order_refl)
  from Cons.prems have c1: "c1 = str1 ! j" and s1: "s1 = drop (Suc j) str1"
    by (metis Cons_nth_drop_Suc list.inject lt)+
  let ?M = "\<lambda>i' k. editDistanceRev (rev (take k str1)) (rev (take i' str2))"
  have upt1: "[j ..< Suc (length str1)] = j # Suc j # [Suc (Suc j) ..< Suc (length str1)]"
    using lt by (simp add: upt_conv_Cons del: upt_Suc)
  have upt2: "[Suc j ..< Suc (length str1)] = Suc j # [Suc (Suc j) ..< Suc (length str1)]"
    using lt by (simp add: upt_conv_Cons del: upt_Suc)
  have cell: "?M (Suc i) (Suc j) =
      (if c2 = c1 then ?M i j else min (?M i j + 1) (min (?M (Suc i) j + 1) (?M i (Suc j) + 1)))"
    using lt i c1 c2 by (auto simp: take_Suc_conv_app_nth)
  have IH: "rowCells c2 s1 (map (?M i) [Suc j ..< Suc (length str1)]) (?M (Suc i) (Suc j))
      = map (?M (Suc i)) [Suc (Suc j) ..< Suc (length str1)]"
    using s1 lt by (intro Cons.IH) simp_all
  show ?case
    unfolding upt1 using IH cell by (simp add: upt2 Let_def del: upt_Suc)
qed

lemma fillMatrix_rows:
  "s2 = drop i str2 \<Longrightarrow> i \<le> length str2 \<Longrightarrow>
   fillMatrix str1 s2
     (map (\<lambda>k. editDistanceRev (rev (take k str1)) (rev (take i str2))) [0 ..< Suc (length str1)]) i
   = map (\<lambda>k. editDistanceRev (rev (take k str1)) (rev str2)) [0 ..< Suc (length str1)]"
proof (induction s2 arbitrary: i)
  case Nil
  then have "i = length str2" by simp
  then show ?case by simp
next
  case (Cons c2 s2)
  from Cons.prems have lt: "i < length str2"
    by (metis drop_all le_neq_implies_less list.distinct(1) order_refl)
  from Cons.prems have c2: "c2 = str2 ! i" and s2: "s2 = drop (Suc i) str2"
    by (metis Cons_nth_drop_Suc list.inject lt)+
  let ?M = "\<lambda>i' k. editDistanceRev (rev (take k str1)) (rev (take i' str2))"
  have first: "?M (Suc i) 0 = Suc i"
    using lt by simp
  have "rowCells c2 str1 (map (?M i) [0 ..< Suc (length str1)]) (Suc i)
      = map (?M (Suc i)) [Suc 0 ..< Suc (length str1)]"
    using rowCells_row [OF lt c2, of str1 0 str1] first by simp
  then have row: "Suc i # rowCells c2 str1 (map (?M i) [0 ..< Suc (length str1)]) (Suc i)
      = map (?M (Suc i)) [0 ..< Suc (length str1)]"
    using first by (simp add: upt_conv_Cons del: upt_Suc)
  have "fillMatrix str1 s2 (map (?M (Suc i)) [0 ..< Suc (length str1)]) (Suc i)
      = map (\<lambda>k. editDistanceRev (rev (take k str1)) (rev str2)) [0 ..< Suc (length str1)]"
    using s2 lt by (intro Cons.IH) simp_all
  with row show ?case by (simp del: upt_Suc)
qed

lemma levenshtein_editDistance: "levenshtein str1 str2 = editDistance str1 str2"
proof -
  have "map (\<lambda>k. editDistanceRev (rev (take k str1)) (rev (take 0 str2))) [0 ..< Suc (length str1)]
      = [0 ..< Suc (length str1)]"
    by (intro map_idI) (auto simp: editDistanceRev_Nil2)
  with fillMatrix_rows [of str2 0 str2 str1]
  have "fillMatrix str1 str2 [0 ..< Suc (length str1)] 0
      = map (\<lambda>k. editDistanceRev (rev (take k str1)) (rev str2)) [0 ..< Suc (length str1)]"
    by simp
  then show ?thesis
    by (simp add: levenshtein_def editDistance_def last_map del: upt_Suc)
qed

lemma editDistanceRev_self: "editDistanceRev s s = 0"
  by (induction s) simp_all

lemma levenshtein_self: "levenshtein s s = 0"
  by (simp add: levenshtein_editDistance editDistance_def editDistanceRev_self)

lemma calculateStringSimilarity_self: "calculateStringSimilarity s s = 1"
  by (simp add: calculateStringSimilarity_def levenshtein_self Let_def)

subsection \<open>The loops\<close>

lemma countMatches_fold:
  "foldl (\<lambda>(keywordMatches, exactMatches) searchWord.
              case scanFound searchWord fw of
                ExactHit \<Rightarrow> (keywordMatches + 1, exactMatches + 1)
              | PartialHit \<Rightarrow> (keywordMatches + 1, exactMatches)
              | NoHit \<Rightarrow> (keywordMatches, exactMatches)) (k, e) sw =
   (k + length (filter (\<lambda>w. scanFound w fw \<noteq> NoHit) sw),
    e + length (filter (\<lambda>w. scanFound w fw = ExactHit) sw))"
  by (induction sw arbitrary: k e) (simp_all split: Hit.splits)

lemma countMatches_exact:
  "snd (countMatches sw fw) = length (filter (\<lambda>w. scanFound w fw = ExactHit) sw)"
  by (simp add: countMatches_def countMatches_fold)

lemma scanFound_exact_mem: "scanFound w fw = ExactHit \<Longrightarrow> w \<in> set fw"
  by (induction fw) (auto split: if_splits)

lemma exactMatches_le: "exactMatches q f \<le> length (searchWords q)"
  by (simp add: exactMatches_def countMatches_exact)

subsection \<open>The steps of the validator\<close>

lemma isBusinessNameMatch_steps:
  "isBusinessNameMatch q f =
     (locationFilteredEqual q f \<or> cleanNamesEqual q f
      \<or> (case keywordVerdict q f of
            Accept \<Rightarrow> True
          | Reject \<Rightarrow> False
          | FallThrough \<Rightarrow> nameSimilarity q f \<ge> 19 / 20))"
  by (auto simp: isBusinessNameMatch_def locationFilteredEqual_def cleanNamesEqual_def
      keywordVerdict_def nameSimilarity_def Let_def split: Verdict.splits)

lemma keywordVerdict_single:
  "length (searchWords q) \<le> 1 \<Longrightarrow>
   keywordVerdict q f = (if exactMatches q f = 1 then Accept else FallThrough)"
  by (simp add: keywordVerdict_def keywordStep_def searchWords_def foundWords_def
      exactMatches_def Let_def max_def split: prod.splits)

lemma keywordVerdict_multi:
  "length (searchWords q) > 1 \<Longrightarrow>
   keywordVerdict q f =
     (if hasType (searchWords q) \<and> hasType (foundWords f)
         \<and> \<not> hasTypeMatch (searchWords q) (foundWords f) then Reject
      else if of_nat (exactMatches q f)
                \<ge> requiredMatches (length (searchWords q)) (hasLocationTerms q)
      then Accept else FallThrough)"
  by (simp add: keywordVerdict_def keywordStep_def searchWords_def foundWords_def
      exactMatches_def hasLocationTerms_def Let_def max_def split: prod.splits)

lemma hasType_iff: "hasType ws \<longleftrightarrow> set ws \<inter> set searchTypeWords \<noteq> {}"
  by (auto simp: hasType_def list_ex_iff)

lemma hasTypeMatch_iff: "hasTypeMatch sw fw \<longleftrightarrow> \<not> typesIncompatible sw fw"
  by (auto simp: hasTypeMatch_def typesIncompatible_def list_ex_iff Let_def)

lemma equal_names_equal_words:
  assumes "locationFilteredEqual q f \<or> cleanNamesEqual q f"
  shows "searchWords q = foundWords f"
  using assms
  by (auto simp: locationFilteredEqual_def cleanNamesEqual_def searchWords_def foundWords_def
      nameKeywords_def)

subsection \<open>The claims about the validator\<close>

text \<open>
  C10. A candidate whose fully-cleaned name equals the fully-cleaned query name is
  accepted, also when both names clean to the empty string: \<open>LLC\<close> and \<open>Inc.\<close> both
  clean to the empty string, the location-filtered check (which asks for a non-empty
  string) does not hold for them, and the full-name check accepts them.
\<close>

theorem equal_clean_names_accepted:
  "(cleanNamesEqual q f \<longrightarrow> isBusinessNameMatch q f)
   \<and> cleanSearchName ''LLC'' = []
   \<and> cleanFoundName ''Inc.'' = []
   \<and> \<not> locationFilteredEqual ''LLC'' ''Inc.''
   \<and> isBusinessNameMatch ''LLC'' ''Inc.''"
proof -
  have 1: "cleanSearchName ''LLC'' = []" by code_simp
  have 2: "cleanFoundName ''Inc.'' = []" by code_simp
  have 3: "trim (removeLocationTerms []) = []" by code_simp
  have 4: "\<not> locationFilteredEqual ''LLC'' ''Inc.''"
    by (simp add: locationFilteredEqual_def 1 2 3)
  have 5: "isBusinessNameMatch ''LLC'' ''Inc.''"
    by (simp add: isBusinessNameMatch_steps cleanNamesEqual_def 1 2)
  show ?thesis
    using 1 2 4 5 by (simp add: isBusinessNameMatch_steps)
qed

theorem equal_clean_names_accepted_witness:
  "cleanNamesEqual ''ACME, Waco'' ''Acme Inc.'' \<and> isBusinessNameMatch ''ACME, Waco'' ''Acme Inc.''"
proof -
  have 1: "cleanSearchName ''ACME, Waco'' = ''acme''" by code_simp
  have 2: "cleanFoundName ''Acme Inc.'' = ''acme''" by code_simp
  have "cleanNamesEqual ''ACME, Waco'' ''Acme Inc.''"
    by (simp add: cleanNamesEqual_def 1 2)
  with equal_clean_names_accepted [of "''ACME, Waco''" "''Acme Inc.''"] show ?thesis
    by simp
qed

text \<open>
  C5. For a query with more than one keyword: when the keywords of the query and the
  keywords of the candidate both hold a type word of the fixed list and no type word of
  the one is compatible with a type word of the other (\<open>grill\<close> and \<open>grille\<close> being
  compatible), the validator rejects the candidate. The query \<open>Tony's Pizza\<close> against the
  candidate \<open>Tony's Bistro\<close> is rejected.
\<close>

theorem incompatible_types_rejected:
  "(length (searchWords q) > 1
      \<and> set (searchWords q) \<inter> set searchTypeWords \<noteq> {}
      \<and> set (foundWords f) \<inter> set searchTypeWords \<noteq> {}
      \<and> typesIncompatible (searchWords q) (foundWords f)
    \<longrightarrow> \<not> isBusinessNameMatch q f)
   \<and> \<not> isBusinessNameMatch (''Tony'' @ [CHR 0x27] @ ''s Pizza'') (''Tony'' @ [CHR 0x27] @ ''s Bistro'')"
proof -
  have general: "\<not> isBusinessNameMatch q f"
    if multi: "length (searchWords q) > 1"
      and st: "set (searchWords q) \<inter> set searchTypeWords \<noteq> {}"
      and ft: "set (foundWords f) \<inter> set searchTypeWords \<noteq> {}"
      and inc: "typesIncompatible (searchWords q) (foundWords f)"
  proof -
    have "\<not> (locationFilteredEqual q f \<or> cleanNamesEqual q f)"
    proof
      assume "locationFilteredEqual q f \<or> cleanNamesEqual q f"
      then have "searchWords q = foundWords f" by (rule equal_names_equal_words)
      with st inc show False by (auto simp: typesIncompatible_def)
    qed
    moreover have "keywordVerdict q f = Reject"
      using multi st ft inc by (simp add: keywordVerdict_multi hasType_iff hasTypeMatch_iff)
    ultimately show ?thesis by (simp add: isBusinessNameMatch_steps)
  qed
  have tony: "\<not> isBusinessNameMatch (''Tony'' @ [CHR 0x27] @ ''s Pizza'') (''Tony'' @ [CHR 0x27] @ ''s Bistro'')"
    by code_simp
  from general tony show ?thesis by blast
qed

theorem incompatible_types_rejected_witness:
  "length (searchWords ''Luigis Pizzeria'') > 1
   \<and> set (searchWords ''Luigis Pizzeria'') \<inter> set searchTypeWords \<noteq> {}
   \<and> set (foundWords ''Luigis Bakery'') \<inter> set searchTypeWords \<noteq> {}
   \<and> typesIncompatible (searchWords ''Luigis Pizzeria'') (foundWords ''Luigis Bakery'')
   \<and> \<not> isBusinessNameMatch ''Luigis Pizzeria'' ''Luigis Bakery''"
proof -
  have sw: "searchWords ''Luigis Pizzeria'' = [''luigis'', ''pizzeria'']" by code_simp
  have fw: "foundWords ''Luigis Bakery'' = [''luigis'', ''bakery'']" by code_simp
  have 1: "length (searchWords ''Luigis Pizzeria'') > 1" by (simp add: sw)
  have 2: "set (searchWords ''Luigis Pizzeria'') \<inter> set searchTypeWords \<noteq> {}"
    by (simp add: sw searchTypeWords_def)
  have 3: "set (foundWords ''Luigis Bakery'') \<inter> set searchTypeWords \<noteq> {}"
    by (simp add: fw searchTypeWords_def)
  have 4: "typesIncompatible (searchWords ''Luigis Pizzeria'') (foundWords ''Luigis Bakery'')"
    by (simp add: sw fw typesIncompatible_def searchTypeWords_def)
  from incompatible_types_rejected [of "''Luigis Pizzeria''" "''Luigis Bakery''"] 1 2 3 4
  show ?thesis by blast
qed

text \<open>
  C4. When neither equality check of the exact-match step holds and the keyword step
  falls through, the validator accepts exactly when the similarity of the fully-cleaned
  names is at least 0.95. The similarity of two strings, not both empty, is 1 minus their
  Levenshtein distance divided by the length of the longer one; the similarity of a string
  with itself is 1; \<open>Ace Plumbing\<close> against \<open>Ace Electric\<close> has similarity below 0.95 and is
  rejected.
\<close>

theorem fuzzy_fallback_threshold:
  "(\<not> locationFilteredEqual q f \<and> \<not> cleanNamesEqual q f \<and> keywordVerdict q f = FallThrough
      \<longrightarrow> isBusinessNameMatch q f = (nameSimilarity q f \<ge> 95 / 100))
   \<and> (str1 \<noteq> [] \<or> str2 \<noteq> [] \<longrightarrow>
        calculateStringSimilarity str1 str2 =
          1 - of_nat (editDistance str1 str2) / of_nat (max (length str1) (length str2)))
   \<and> calculateStringSimilarity s s = 1
   \<and> nameSimilarity ''Ace Plumbing'' ''Ace Electric'' < 95 / 100
   \<and> \<not> isBusinessNameMatch ''Ace Plumbing'' ''Ace Electric''"
proof -
  have sim: "nameSimilarity ''Ace Plumbing'' ''Ace Electric'' = 5 / 12" by code_simp
  have ace: "\<not> isBusinessNameMatch ''Ace Plumbing'' ''Ace Electric''" by code_simp
  have dist: "calculateStringSimilarity str1 str2 =
      1 - of_nat (editDistance str1 str2) / of_nat (max (length str1) (length str2))"
    if "str1 \<noteq> [] \<or> str2 \<noteq> []"
  proof (cases "str1 = [] \<or> str2 = []")
    case True
    with that show ?thesis
      by (auto simp: calculateStringSimilarity_def editDistance_def editDistanceRev_Nil2)
  next
    case False
    then show ?thesis
      by (simp add: calculateStringSimilarity_def levenshtein_editDistance Let_def)
  qed
  show ?thesis
    using ace dist by (simp add: sim isBusinessNameMatch_steps calculateStringSimilarity_self)
qed

theorem fuzzy_fallback_threshold_witness:
  "\<not> locationFilteredEqual ''Christophers Steakhouse'' ''Christopher Steakhouse''
   \<and> \<not> cleanNamesEqual ''Christophers Steakhouse'' ''Christopher Steakhouse''
   \<and> keywordVerdict ''Christophers Steakhouse'' ''Christopher Steakhouse'' = FallThrough
   \<and> nameSimilarity ''Christophers Steakhouse'' ''Christopher Steakhouse'' = 22 / 23
   \<and> isBusinessNameMatch ''Christophers Steakhouse'' ''Christopher Steakhouse''"
proof -
  have 1: "\<not> locationFilteredEqual ''Christophers Steakhouse'' ''Christopher Steakhouse''"
    by code_simp
  have 2: "\<not> cleanNamesEqual ''Christophers Steakhouse'' ''Christopher Steakhouse''"
    by code_simp
  have 3: "keywordVerdict ''Christophers Steakhouse'' ''Christopher Steakhouse'' = FallThrough"
    by code_simp
  have 4: "nameSimilarity ''Christophers Steakhouse'' ''Christopher Steakhouse'' = 22 / 23"
    by code_simp
  from fuzzy_fallback_threshold
    [of "''Christophers Steakhouse''" "''Christopher Steakhouse''" "''a''" "''b''" "''a''"]
    1 2 3 4
  show ?thesis by simp
qed

text \<open>
  C2, as stated, fails: \<open>Johnsons Hardware Store\<close> has three keywords and no location
  term, the candidate \<open>Johnson Hardware Store\<close> scores two exact hits, fewer than
  \<open>ceil (3 * 0.75) = 3\<close>, and is accepted (by the similarity fallback, 22/23).
\<close>

theorem multi_token_ratio_counterexample:
  "length (searchWords ''Johnsons Hardware Store'') > 1
   \<and> \<not> hasLocationTerms ''Johnsons Hardware Store''
   \<and> isBusinessNameMatch ''Johnsons Hardware Store'' ''Johnson Hardware Store''
   \<and> of_nat (exactMatches ''Johnsons Hardware Store'' ''Johnson Hardware Store'')
       < Math_ceil (of_nat (length (searchWords ''Johnsons Hardware Store'')) * (75 / 100))"
proof -
  have 1: "searchWords ''Johnsons Hardware Store'' = [''johnsons'', ''hardware'', ''store'']"
    by code_simp
  have 2: "\<not> hasLocationTerms ''Johnsons Hardware Store''" by code_simp
  have 3: "isBusinessNameMatch ''Johnsons Hardware Store'' ''Johnson Hardware Store''"
    by code_simp
  have 4: "exactMatches ''Johnsons Hardware Store'' ''Johnson Hardware Store'' = 2"
    by code_simp
  have 5: "Math_ceil (of_nat 3 * (75 / 100)) = 3"
    by (simp add: Math_ceil_def ceiling_eq_iff)
  show ?thesis using 2 3 5 by (simp add: 1 4)
qed

text \<open>
  C2, amended. For a query with more than one keyword the validator accepts a candidate
  exactly when one of the two equality checks of the exact-match step holds, or the type
  words of the two names are not incompatible and either the exact hits reach
  \<open>ceil (n * 0.6)\<close> (location terms present in the query) or \<open>ceil (n * 0.75)\<close> (none), or
  the similarity of the cleaned names is at least 0.95.
\<close>

theorem multi_token_acceptance:
  "length (searchWords q) > 1 \<longrightarrow>
     (isBusinessNameMatch q f \<longleftrightarrow>
        locationFilteredEqual q f \<or> cleanNamesEqual q f
        \<or> (\<not> (hasType (searchWords q) \<and> hasType (foundWords f)
                \<and> typesIncompatible (searchWords q) (foundWords f))
           \<and> (of_nat (exactMatches q f) \<ge>
                  (if hasLocationTerms q
                   then Math_ceil (of_nat (length (searchWords q)) * (6 / 10))
                   else Math_ceil (of_nat (length (searchWords q)) * (75 / 100)))
                \<or> nameSimilarity q f \<ge> 95 / 100)))"
  by (auto simp: isBusinessNameMatch_steps keywordVerdict_multi hasTypeMatch_iff
      requiredMatches_def)

theorem multi_token_acceptance_witness:
  "length (searchWords ''Joes Pizza Austin'') > 1
   \<and> hasLocationTerms ''Joes Pizza Austin''
   \<and> exactMatches ''Joes Pizza Austin'' ''Joes Pizza Palace'' = 2
   \<and> isBusinessNameMatch ''Joes Pizza Austin'' ''Joes Pizza Palace''"
proof -
  have 1: "searchWords ''Joes Pizza Austin'' = [''joes'', ''pizza'']" by code_simp
  have 2: "hasLocationTerms ''Joes Pizza Austin''" by code_simp
  have 3: "exactMatches ''Joes Pizza Austin'' ''Joes Pizza Palace'' = 2" by code_simp
  have 4: "\<not> hasType [''joes'', ''pizza'']" by code_simp
  have 5: "Math_ceil (of_nat 2 * (6 / 10)) = 2"
    by (simp add: Math_ceil_def ceiling_eq_iff)
  have 6: "length (searchWords ''Joes Pizza Austin'') > 1" by (simp add: 1)
  from multi_token_acceptance [of "''Joes Pizza Austin''" "''Joes Pizza Palace''"] 6
  have "isBusinessNameMatch ''Joes Pizza Austin'' ''Joes Pizza Palace''"
    using 2 4 5 by (simp add: 1 3)
  with 2 3 6 show ?thesis by simp
qed

text \<open>
  C3, as stated, fails: \<open>Starbucks\<close> has one keyword, the candidate \<open>Starbucks Coffee\<close> is
  accepted, and the cleaned names differ.
\<close>

theorem single_token_counterexample:
  "length (searchWords ''Starbucks'') = 1
   \<and> isBusinessNameMatch ''Starbucks'' ''Starbucks Coffee''
   \<and> cleanFoundName ''Starbucks Coffee'' \<noteq> cleanSearchName ''Starbucks''"
proof -
  have 1: "searchWords ''Starbucks'' = [''starbucks'']" by code_simp
  have 2: "isBusinessNameMatch ''Starbucks'' ''Starbucks Coffee''" by code_simp
  have 3: "cleanFoundName ''Starbucks Coffee'' = ''starbucks coffee''" by code_simp
  have 4: "cleanSearchName ''Starbucks'' = ''starbucks''" by code_simp
  show ?thesis using 2 by (simp add: 1 3 4)
qed

text \<open>
  C3, amended. For a query with exactly one keyword the validator accepts every candidate
  whose cleaned name equals the cleaned query name, and it accepts a candidate exactly
  when one of the two equality checks of the exact-match step holds, or the keyword
  scores an exact hit (then it is one of the candidate's keywords), or the similarity of
  the cleaned names is at least 0.95.
\<close>

theorem single_token_acceptance:
  "length (searchWords q) = 1 \<longrightarrow>
     (cleanNamesEqual q f \<longrightarrow> isBusinessNameMatch q f)
     \<and> (isBusinessNameMatch q f \<longleftrightarrow>
          locationFilteredEqual q f \<or> cleanNamesEqual q f \<or> exactMatches q f = 1
          \<or> nameSimilarity q f \<ge> 95 / 100)
     \<and> (exactMatches q f = 1 \<longrightarrow> hd (searchWords q) \<in> set (foundWords f))"
proof
  assume single: "length (searchWords q) = 1"
  then obtain w where w: "searchWords q = [w]"
    by (cases "searchWords q") simp_all
  have "hd (searchWords q) \<in> set (foundWords f)" if "exactMatches q f = 1"
  proof -
    from that w have "scanFound w (foundWords f) = ExactHit"
      by (simp add: exactMatches_def countMatches_exact split: if_splits)
    with w show ?thesis by (simp add: scanFound_exact_mem)
  qed
  moreover have "isBusinessNameMatch q f \<longleftrightarrow>
          locationFilteredEqual q f \<or> cleanNamesEqual q f \<or> exactMatches q f = 1
          \<or> nameSimilarity q f \<ge> 95 / 100"
    using single by (auto simp: isBusinessNameMatch_steps keywordVerdict_single)
  ultimately show "(cleanNamesEqual q f \<longrightarrow> isBusinessNameMatch q f)
     \<and> (isBusinessNameMatch q f \<longleftrightarrow>
          locationFilteredEqual q f \<or> cleanNamesEqual q f \<or> exactMatches q f = 1
          \<or> nameSimilarity q f \<ge> 95 / 100)
     \<and> (exactMatches q f = 1 \<longrightarrow> hd (searchWords q) \<in> set (foundWords f))"
    by blast
qed

theorem single_token_acceptance_witness:
  "length (searchWords ''Walgreens, Austin TX'') = 1
   \<and> exactMatches ''Walgreens, Austin TX'' ''Walgreens Pharmacy'' = 1
   \<and> hd (searchWords ''Walgreens, Austin TX'') \<in> set (foundWords ''Walgreens Pharmacy'')
   \<and> isBusinessNameMatch ''Walgreens, Austin TX'' ''Walgreens Pharmacy''"
proof -
  have 1: "searchWords ''Walgreens, Austin TX'' = [''walgreens'']" by code_simp
  have 2: "exactMatches ''Walgreens, Austin TX'' ''Walgreens Pharmacy'' = 1" by code_simp
  have 3: "length (searchWords ''Walgreens, Austin TX'') = 1" by (simp add: 1)
  from single_token_acceptance [of "''Walgreens, Austin TX''" "''Walgreens Pharmacy''"] 2 3
  show ?thesis by simp
qed

end
